theory Spec2Isabelle
  imports Main
begin

section \<open>The Vault KMS client of \<open>cmd/crypto/vault.go\<close>\<close>

text \<open>
  A Go \<open>string\<close> and a Go \<open>[]byte\<close> are both sequences of 8-bit bytes; the conversions
  between them copy the bytes unchanged. Both are modelled as \<open>string\<close> (a list of
  \<open>char\<close>, which is an 8-bit value). A nil slice and an empty slice are both \<open>[]\<close>.
  Go's \<open>int\<close> fields are never used in arithmetic here (they are only compared with 0 or
  converted to the 64-bit \<open>time.Duration\<close>), so they are modelled as \<open>int\<close>.
\<close>

subsection \<open>Errors\<close>

text \<open>
  \<open>errorString\<close> is the value built by \<open>errors.New\<close> and \<open>fmt.Errorf\<close>, known by its
  message. \<open>ServiceError\<close> stands for whatever error the vault client hands back from
  a remote call or a renewer. \<open>CorruptInputError\<close> is the error of
  \<open>encoding/base64\<close> (its byte offset is not modelled).
\<close>

datatype error = errorString string | ServiceError string | CorruptInputError

definition ErrKMSAuthLogin :: error where
  "ErrKMSAuthLogin = errorString ''Vault service did not return auth info''"

subsection \<open>Configuration\<close>

record VaultKey =
  Name :: string
  Version :: int

record VaultAppRole =
  ID :: string
  Secret :: string

record VaultAuth =
  Type :: string
  AppRole :: VaultAppRole

record VaultConfig =
  Endpoint :: string
  CAPath :: string
  Auth :: VaultAuth
  Key :: VaultKey
  Namespace :: string

definition emptyVaultConfig :: VaultConfig where
  "emptyVaultConfig =
     \<lparr>Endpoint = [], CAPath = [],
      Auth = \<lparr>Type = [], AppRole = \<lparr>ID = [], Secret = []\<rparr>\<rparr>,
      Key = \<lparr>Name = [], Version = 0\<rparr>, Namespace = []\<rparr>"

definition IsEmpty :: "VaultConfig \<Rightarrow> bool" where
  "IsEmpty v = (v = emptyVaultConfig)"

text \<open>
  \<open>strings.ToLower\<close>. On a string of ASCII bytes Go adds \<open>'a' - 'A'\<close> to every byte in
  \<open>'A'..'Z'\<close> and keeps the others, which is what \<open>ToLower\<close> does here. On a string with a
  byte above 0x7F Go maps the UTF-8 runes through \<open>unicode.ToLower\<close>; the model keeps such
  bytes as they are. The only use of the function is the comparison with
  \<open>''approle''\<close>, which fails for such a string in Go as in the model: no rule of
  \<open>unicode.ToLower\<close> turns a rune outside ASCII into one of the letters of
  \<open>approle\<close>, and a byte that is not valid UTF-8 becomes U+FFFD.
\<close>

definition toLowerByte :: "char \<Rightarrow> char" where
  "toLowerByte c =
     (if 65 \<le> (of_char c :: nat) \<and> (of_char c :: nat) \<le> 90
      then char_of ((of_char c :: nat) + 32) else c)"

definition ToLower :: "string \<Rightarrow> string" where
  "ToLower s = map toLowerByte s"

definition Verify :: "VaultConfig \<Rightarrow> error option" where
  "Verify v =
     (if IsEmpty v then None
      else if Endpoint v = [] then
        Some (errorString ''crypto: missing hashicorp vault endpoint'')
      else if ToLower (Type (Auth v)) \<noteq> ''approle'' then
        Some (errorString (''crypto: invalid hashicorp vault authentication type: ''
                @ Type (Auth v) @ '' is not supported''))
      else if ID (AppRole (Auth v)) = [] then
        Some (errorString ''crypto: missing hashicorp vault AppRole ID'')
      else if Secret (AppRole (Auth v)) = [] then
        Some (errorString ''crypto: missing hashicorp vault AppSecret ID'')
      else if Name (Key v) = [] then
        Some (errorString ''crypto: missing hashicorp vault key name'')
      else if Version (Key v) < 0 then
        Some (errorString
          ''crypto: invalid hashicorp vault key version: The key version must not be negative'')
      else None)"


subsection \<open>The vault client library, as far as this file uses it\<close>

text \<open>
  The package \<open>github.com/hashicorp/vault/api\<close> is not part of this repository. Its
  values are modelled by what the code reads from them. A Go \<open>interface{}\<close> holding a
  decoded JSON value is an \<open>any\<close>; only \<open>JString\<close> passes the type assertion
  \<open>.(string)\<close>.
\<close>

datatype any =
    JString string
  | JNumber int
  | JBool bool
  | JNull
  | JArray "any list"
  | JObject "(string \<times> any) list"

record vault_SecretAuth =
  ClientToken :: string
  LeaseDuration :: int

text \<open>\<open>vault.Secret\<close>: the fields \<open>Data\<close> and \<open>Auth\<close> (a pointer, so it may be nil).\<close>

record vault_Secret =
  Secret_Data :: "string \<rightharpoonup> any"
  Secret_Auth :: "vault_SecretAuth option"

record vault_Client =
  address :: string
  token :: string
  namespace :: string

definition SetToken :: "vault_Client \<Rightarrow> string \<Rightarrow> vault_Client" where
  "SetToken c t = c\<lparr>token := t\<rparr>"

definition SetNamespace :: "vault_Client \<Rightarrow> string \<Rightarrow> vault_Client" where
  "SetNamespace c n = c\<lparr>namespace := n\<rparr>"

text \<open>
  What a renewer delivers to the \<open>select\<close> of \<open>renewSecret\<close>: a value on \<open>DoneCh\<close> (an
  error, possibly nil) or a \<open>RenewOutput\<close> on \<open>RenewCh\<close> (its \<open>Secret\<close> pointer, possibly
  nil).
\<close>

datatype event = Done "error option" | Renew "vault_Secret option"

text \<open>A Go call returning \<open>(*vault.Secret, error)\<close>.\<close>

type_synonym reply = "vault_Secret option \<times> error option"

text \<open>The calls that leave the process, in the order they are made.\<close>

datatype action =
    Write vault_Client string "string \<rightharpoonup> any"
  | StartRenewer vault_Secret
  | StopRenewer
  | Sleep int

text \<open>
  The world outside the process. \<open>service\<close> answers a \<open>Logical().Write\<close> and \<open>renewer\<close>
  gives the events that a renewer started for a secret delivers, in the order in which
  the \<open>select\<close> receives them; both may depend on everything done so far. When the events
  of a renewer are used up, nothing more ever arrives on its channels. \<open>configureTLS\<close>
  and \<open>newClient\<close> are the outcomes of \<open>vault.Config.ConfigureTLS\<close> for a CA path and
  of \<open>vault.NewClient\<close> for an address.
\<close>

record world =
  configureTLS :: "string \<Rightarrow> error option"
  newClient :: "string \<Rightarrow> error + vault_Client"
  service :: "action list \<Rightarrow> vault_Client \<Rightarrow> string \<Rightarrow> (string \<rightharpoonup> any) \<Rightarrow> reply"
  renewer :: "action list \<Rightarrow> vault_Secret \<Rightarrow> event list"
  trace :: "action list"

definition Logical_Write ::
  "vault_Client \<Rightarrow> string \<Rightarrow> (string \<rightharpoonup> any) \<Rightarrow> world \<Rightarrow> reply \<times> world" where
  "Logical_Write c path payload w =
     (service w (trace w) c path payload,
      w\<lparr>trace := trace w @ [Write c path payload]\<rparr>)"

text \<open>\<open>Client.NewRenewer\<close> fails exactly when it is given no secret.\<close>

definition NewRenewer :: "vault_Secret option \<Rightarrow> error + vault_Secret" where
  "NewRenewer secret =
     (case secret of
        None \<Rightarrow> Inl (ServiceError ''missing secret'')
      | Some s \<Rightarrow> Inr s)"

definition Minute :: int where
  "Minute = 60 * 1000000000"

definition time_Sleep :: "int \<Rightarrow> world \<Rightarrow> world" where
  "time_Sleep d w = w\<lparr>trace := trace w @ [Sleep d]\<rparr>"

subsection \<open>The service\<close>

record vaultService =
  config :: VaultConfig
  client :: vault_Client
  leaseDuration :: int

text \<open>
  What a call of the model does: it returns, it never returns (it waits for an event that
  does not come), or the goroutine panics.
\<close>

datatype 'a outcome = Returns 'a | Blocks | Panics

text \<open>
  The \<open>for { select { ... } }\<close> of \<open>renewSecret\<close>, over the events still to come. A
  \<open>Done\<close> without an error leaves the \<open>select\<close> and the loop waits again.
\<close>

fun renewWait :: "event list \<Rightarrow> reply outcome" where
  "renewWait [] = Blocks"
| "renewWait (Done err # evs) =
     (case err of
        Some e \<Rightarrow> Returns (None, Some e)
      | None \<Rightarrow> renewWait evs)"
| "renewWait (Renew r # evs) =
     (case r of
        None \<Rightarrow> Returns (None, Some ErrKMSAuthLogin)
      | Some s \<Rightarrow>
         (case Secret_Auth s of
            None \<Rightarrow> Returns (None, Some ErrKMSAuthLogin)
          | Some a \<Rightarrow> Returns (Some s, None)))"

text \<open>
  \<open>renewSecret\<close>. When \<open>NewRenewer\<close> fails, \<open>logger.CriticalIf\<close> (of a package that is
  not under \<open>src/\<close>) is called with the error and the renewer is nil, so that
  \<open>renewer.Renew()\<close> is a nil dereference: the call does not return. \<open>go renewer.Renew()\<close>
  is the action \<open>StartRenewer\<close>; the deferred \<open>renewer.Stop()\<close> runs on every return.
\<close>

definition renewSecret ::
  "vaultService \<Rightarrow> vault_Secret option \<Rightarrow> world \<Rightarrow> reply outcome \<times> world" where
  "renewSecret v secret w =
     (case NewRenewer secret of
        Inl err \<Rightarrow> (Panics, w)
      | Inr s \<Rightarrow>
         (let w1 = w\<lparr>trace := trace w @ [StartRenewer s]\<rparr> in
          case renewWait (renewer w (trace w1) s) of
            Returns r \<Rightarrow> (Returns r, w1\<lparr>trace := trace w1 @ [StopRenewer]\<rparr>)
          | Blocks \<Rightarrow> (Blocks, w1)
          | Panics \<Rightarrow> (Panics, w1)))"

definition login :: "vaultService \<Rightarrow> world \<Rightarrow> reply \<times> world" where
  "login v w =
     (let payload = [''role_id'' \<mapsto> JString (ID (AppRole (Auth (config v)))),
                     ''secret_id'' \<mapsto> JString (Secret (AppRole (Auth (config v))))];
          (r, w1) = Logical_Write (client v) ''auth/approle/login'' payload w
      in case snd r of
           Some err \<Rightarrow> ((None, Some err), w1)
         | None \<Rightarrow>
            (case fst r of
               None \<Rightarrow> ((None, Some ErrKMSAuthLogin), w1)
             | Some secret \<Rightarrow>
                (case Secret_Auth secret of
                   None \<Rightarrow> ((None, Some ErrKMSAuthLogin), w1)
                 | Some a \<Rightarrow> ((Some secret, None), w1))))"

text \<open>
  The three statements that install a secret, in \<open>authenticate\<close> and at the end of its
  loop body: \<open>v.client.SetToken(secret.Auth.ClientToken)\<close> and
  \<open>v.leaseDuration = time.Duration(secret.Auth.LeaseDuration)\<close>. A nil secret or a nil
  \<open>Auth\<close> is a nil dereference (\<open>None\<close>).
\<close>

definition useSecret ::
  "vaultService \<Rightarrow> vault_Secret option \<Rightarrow> (vaultService \<times> vault_Secret) option" where
  "useSecret v newSecret =
     (case newSecret of
        None \<Rightarrow> None
      | Some secret \<Rightarrow>
         (case Secret_Auth secret of
            None \<Rightarrow> None
          | Some a \<Rightarrow>
             Some (v\<lparr>client := SetToken (client v) (ClientToken a),
                     leaseDuration := LeaseDuration a\<rparr>, secret)))"

text \<open>
  The background job of \<open>authenticate\<close>. The loop has no exit, so the model runs a
  given number of iterations of its body: \<open>Running\<close> is the state after them, with the
  job still looping; \<open>Waiting\<close> is the job blocked for ever inside \<open>renewSecret\<close>;
  \<open>Crashed\<close> is a panic of the goroutine.
\<close>

datatype job =
    Running vaultService vault_Secret world
  | Waiting vaultService vault_Secret world
  | Crashed world

fun background :: "nat \<Rightarrow> vaultService \<Rightarrow> vault_Secret \<Rightarrow> world \<Rightarrow> job" where
  "background 0 v secret w = Running v secret w"
| "background (Suc n) v secret w =
     (case renewSecret v (Some secret) w of
        (Panics, w1) \<Rightarrow> Crashed w1
      | (Blocks, w1) \<Rightarrow> Waiting v secret w1
      | (Returns (newSecret, err), w1) \<Rightarrow>
         (case err of
            Some e \<Rightarrow>
             (case login v w1 of
                ((newSecret', Some e'), w2) \<Rightarrow> background n v secret (time_Sleep (1 * Minute) w2)
              | ((newSecret', None), w2) \<Rightarrow>
                 (case useSecret v newSecret' of
                    None \<Rightarrow> Crashed w2
                  | Some (v', secret') \<Rightarrow> background n v' secret' w2))
          | None \<Rightarrow>
             (case useSecret v newSecret of
                None \<Rightarrow> Crashed w1
              | Some (v', secret') \<Rightarrow> background n v' secret' w1)))"

text \<open>
  \<open>authenticate\<close> returns its error, the service as it leaves it, and the secret handed
  to the background job when the job is started.
\<close>

definition authenticate ::
  "vaultService \<Rightarrow> world \<Rightarrow> (error option \<times> vaultService \<times> vault_Secret option) outcome \<times> world"
  where
  "authenticate v w =
     (case login v w of
        ((secret, Some err), w1) \<Rightarrow> (Returns (Some err, v, None), w1)
      | ((secret, None), w1) \<Rightarrow>
         (case useSecret v secret of
            None \<Rightarrow> (Panics, w1)
          | Some (v', secret') \<Rightarrow> (Returns (None, v', Some secret'), w1)))"

text \<open>
  \<open>NewVault\<close> returns \<open>(KMS, error)\<close>: here the error, or the service together with
  the secret its background job starts from.
\<close>

definition NewVault ::
  "VaultConfig \<Rightarrow> world \<Rightarrow> (error + vaultService \<times> vault_Secret option) outcome \<times> world" where
  "NewVault cfg w =
     (if IsEmpty cfg then
        (Returns (Inl (errorString
           ''crypto: the hashicorp vault configuration must not be empty'')), w)
      else case Verify cfg of
        Some err \<Rightarrow> (Returns (Inl err), w)
      | None \<Rightarrow>
         (case configureTLS w (CAPath cfg) of
            Some err \<Rightarrow> (Returns (Inl err), w)
          | None \<Rightarrow>
             (case newClient w (Endpoint cfg) of
                Inl err \<Rightarrow> (Returns (Inl err), w)
              | Inr c \<Rightarrow>
                 (let c1 = (if Namespace cfg \<noteq> [] then SetNamespace c (Namespace cfg) else c);
                      v = \<lparr>config = cfg, client = c1, leaseDuration = 0\<rparr>
                  in case authenticate v w of
                       (Returns (Some err, v', job), w1) \<Rightarrow> (Returns (Inl err), w1)
                     | (Returns (None, v', job), w1) \<Rightarrow> (Returns (Inr (v', job)), w1)
                     | (Blocks, w1) \<Rightarrow> (Blocks, w1)
                     | (Panics, w1) \<Rightarrow> (Panics, w1)))))"


subsection \<open>Key operations\<close>

text \<open>
  \<open>base64.StdEncoding\<close> of Go's standard library (not part of this repository): the
  alphabet of RFC 4648 with \<open>=\<close> padding. \<open>DecodeString\<close> skips every \<open>\r\<close> and \<open>\n\<close>,
  wants whole groups of four characters, accepts padding only at the end of the last
  group, and does not check the unused bits of a padded group.
\<close>

definition encodeStd :: string where
  "encodeStd = ''ABCDEFGHIJKLMNOPQRSTUVWXYZabcdefghijklmnopqrstuvwxyz0123456789+/''"

definition enc6 :: "nat \<Rightarrow> char" where
  "enc6 n = encodeStd ! (n mod 64)"

fun EncodeToString :: "string \<Rightarrow> string" where
  "EncodeToString [] = []"
| "EncodeToString [a] =
     (let n = of_char a * 65536
      in [enc6 (n div 262144), enc6 (n div 4096), CHR ''='', CHR ''=''])"
| "EncodeToString [a, b] =
     (let n = of_char a * 65536 + of_char b * 256
      in [enc6 (n div 262144), enc6 (n div 4096), enc6 (n div 64), CHR ''=''])"
| "EncodeToString (a # b # c # rest) =
     (let n = of_char a * 65536 + of_char b * 256 + of_char c
      in [enc6 (n div 262144), enc6 (n div 4096), enc6 (n div 64), enc6 n]
         @ EncodeToString rest)"

fun indexFrom :: "nat \<Rightarrow> char \<Rightarrow> string \<Rightarrow> nat option" where
  "indexFrom i c [] = None"
| "indexFrom i c (x # xs) = (if c = x then Some i else indexFrom (i + 1) c xs)"

definition dec6 :: "char \<Rightarrow> nat option" where
  "dec6 c = indexFrom 0 c encodeStd"

fun decodeQuanta :: "string \<Rightarrow> string option" where
  "decodeQuanta [] = Some []"
| "decodeQuanta (a # b # c # d # rest) =
     (case dec6 a of
        None \<Rightarrow> None
      | Some x \<Rightarrow>
         (case dec6 b of
            None \<Rightarrow> None
          | Some y \<Rightarrow>
             (if c = CHR ''='' then
                (if d = CHR ''='' \<and> rest = [] then Some [char_of ((x * 64 + y) div 16)]
                 else None)
              else case dec6 c of
                None \<Rightarrow> None
              | Some z \<Rightarrow>
                 (if d = CHR ''='' then
                    (if rest = [] then
                       Some [char_of ((x * 4096 + y * 64 + z) div 1024),
                             char_of ((x * 4096 + y * 64 + z) div 4)]
                     else None)
                  else case dec6 d of
                    None \<Rightarrow> None
                  | Some u \<Rightarrow>
                     (case decodeQuanta rest of
                        None \<Rightarrow> None
                      | Some bs \<Rightarrow>
                         Some ([char_of ((x * 262144 + y * 4096 + z * 64 + u) div 65536),
                                char_of ((x * 262144 + y * 4096 + z * 64 + u) div 256),
                                char_of (x * 262144 + y * 4096 + z * 64 + u)] @ bs))))))"
| "decodeQuanta _ = None"

definition DecodeString :: "string \<Rightarrow> error + string" where
  "DecodeString s =
     (case decodeQuanta (filter (\<lambda>c. c \<noteq> CHR 0x0D \<and> c \<noteq> CHR 0x0A) s) of
        None \<Rightarrow> Inl CorruptInputError
      | Some bs \<Rightarrow> Inr bs)"

text \<open>
  The builtin \<open>copy(dst, src)\<close>: the first \<open>min (len dst) (len src)\<close> elements of \<open>src\<close>
  overwrite the beginning of \<open>dst\<close>; the result is \<open>dst\<close> afterwards.
\<close>

definition copy :: "'a list \<Rightarrow> 'a list \<Rightarrow> 'a list" where
  "copy dst src = take (length dst) src @ drop (length src) dst"

text \<open>The zero value of \<open>[32]byte\<close>.\<close>

definition zeroKey :: string where
  "zeroKey = replicate 32 (CHR 0x00)"

text \<open>
  The type \<open>Context\<close> and its method \<open>WriteTo\<close> are declared in another file of the
  package, which is not under \<open>src/\<close>: \<open>WriteTo\<close> is a parameter, giving the bytes
  that the context writes to the buffer. \<open>GenerateKey\<close> returns
  \<open>(key, sealedKey, err)\<close> and \<open>UnsealKey\<close> returns \<open>(key, err)\<close>. A nil response
  and a failed type assertion \<open>.(string)\<close> are panics.
\<close>

definition GenerateKey ::
  "('ctx \<Rightarrow> string) \<Rightarrow> vaultService \<Rightarrow> string \<Rightarrow> 'ctx \<Rightarrow> world
     \<Rightarrow> (string \<times> string \<times> error option) outcome \<times> world" where
  "GenerateKey WriteTo v keyID ctx w =
     (let key = zeroKey; sealedKey = [];
          contextStream = WriteTo ctx;
          payload = [''context'' \<mapsto> JString (EncodeToString contextStream)];
          (r, w1) = Logical_Write (client v) (''/transit/datakey/plaintext/'' @ keyID) payload w
      in case snd r of
           Some err \<Rightarrow> (Returns (key, sealedKey, Some err), w1)
         | None \<Rightarrow>
            (case fst r of
               None \<Rightarrow> (Panics, w1)
             | Some s \<Rightarrow>
                (case Secret_Data s ''ciphertext'' of
                   Some (JString sealKey) \<Rightarrow>
                    (case Secret_Data s ''plaintext'' of
                       Some (JString p) \<Rightarrow>
                        (case DecodeString p of
                           Inl err \<Rightarrow> (Returns (key, sealedKey, Some err), w1)
                         | Inr plainKey \<Rightarrow> (Returns (copy key plainKey, sealKey, None), w1))
                     | _ \<Rightarrow> (Panics, w1))
                 | _ \<Rightarrow> (Panics, w1))))"

definition UnsealKey ::
  "('ctx \<Rightarrow> string) \<Rightarrow> vaultService \<Rightarrow> string \<Rightarrow> string \<Rightarrow> 'ctx \<Rightarrow> world
     \<Rightarrow> (string \<times> error option) outcome \<times> world" where
  "UnsealKey WriteTo v keyID sealedKey ctx w =
     (let key = zeroKey;
          contextStream = WriteTo ctx;
          payload = [''ciphertext'' \<mapsto> JString sealedKey,
                     ''context'' \<mapsto> JString (EncodeToString contextStream)];
          (r, w1) = Logical_Write (client v) (''/transit/decrypt/'' @ keyID) payload w
      in case snd r of
           Some err \<Rightarrow> (Returns (key, Some err), w1)
         | None \<Rightarrow>
            (case fst r of
               None \<Rightarrow> (Panics, w1)
             | Some s \<Rightarrow>
                (case Secret_Data s ''plaintext'' of
                   Some (JString base64Key) \<Rightarrow>
                    (case DecodeString base64Key of
                       Inl err \<Rightarrow> (Returns (key, Some err), w1)
                     | Inr plainKey \<Rightarrow> (Returns (copy key plainKey, None), w1))
                 | _ \<Rightarrow> (Panics, w1))))"


subsection \<open>The documented rules of \<open>Verify\<close>\<close>

text \<open>
  The specification lists six rules, checked in this order. \<open>obeys\<close> says what each
  rule asks of a configuration, in the specification's words; \<open>complaint\<close> is the
  error of the source for the rule. Two strings are equal up to case when they have the
  same length and, position by position, the same byte or the two cases of one ASCII
  letter.
\<close>

datatype rule =
    EndpointSet
  | AuthTypeAppRole
  | AppRoleIDSet
  | AppRoleSecretSet
  | KeyNameSet
  | KeyVersionNotNegative

definition documentedOrder :: "rule list" where
  "documentedOrder =
     [EndpointSet, AuthTypeAppRole, AppRoleIDSet, AppRoleSecretSet, KeyNameSet,
      KeyVersionNotNegative]"

definition isUpper :: "char \<Rightarrow> bool" where
  "isUpper c = (65 \<le> (of_char c :: nat) \<and> (of_char c :: nat) \<le> 90)"

definition sameLetter :: "char \<Rightarrow> char \<Rightarrow> bool" where
  "sameLetter c d =
     (c = d \<or> (isUpper c \<and> (of_char d :: nat) = of_char c + 32)
            \<or> (isUpper d \<and> (of_char c :: nat) = of_char d + 32))"

definition equalUpToCase :: "string \<Rightarrow> string \<Rightarrow> bool" where
  "equalUpToCase s t = list_all2 sameLetter s t"

fun obeys :: "rule \<Rightarrow> VaultConfig \<Rightarrow> bool" where
  "obeys EndpointSet v = (Endpoint v \<noteq> [])"
| "obeys AuthTypeAppRole v = equalUpToCase (Type (Auth v)) ''approle''"
| "obeys AppRoleIDSet v = (ID (AppRole (Auth v)) \<noteq> [])"
| "obeys AppRoleSecretSet v = (Secret (AppRole (Auth v)) \<noteq> [])"
| "obeys KeyNameSet v = (Name (Key v) \<noteq> [])"
| "obeys KeyVersionNotNegative v = (Version (Key v) \<ge> 0)"

fun complaint :: "rule \<Rightarrow> VaultConfig \<Rightarrow> error" where
  "complaint EndpointSet v = errorString ''crypto: missing hashicorp vault endpoint''"
| "complaint AuthTypeAppRole v =
     errorString (''crypto: invalid hashicorp vault authentication type: ''
       @ Type (Auth v) @ '' is not supported'')"
| "complaint AppRoleIDSet v = errorString ''crypto: missing hashicorp vault AppRole ID''"
| "complaint AppRoleSecretSet v = errorString ''crypto: missing hashicorp vault AppSecret ID''"
| "complaint KeyNameSet v = errorString ''crypto: missing hashicorp vault key name''"
| "complaint KeyVersionNotNegative v =
     errorString
       ''crypto: invalid hashicorp vault key version: The key version must not be negative''"

definition firstViolated :: "VaultConfig \<Rightarrow> rule option" where
  "firstViolated v = find (\<lambda>r. \<not> obeys r v) documentedOrder"

subsection \<open>Concrete inputs\<close>

text \<open>The configuration of the specification's scenario, and the same without a key name.\<close>

definition scenarioConfig :: VaultConfig where
  "scenarioConfig =
     \<lparr>Endpoint = ''https://kms.example'', CAPath = [],
      Auth = \<lparr>Type = ''approle'', AppRole = \<lparr>ID = ''r1'', Secret = ''s1''\<rparr>\<rparr>,
      Key = \<lparr>Name = ''master'', Version = 0\<rparr>, Namespace = []\<rparr>"

definition noKeyNameConfig :: VaultConfig where
  "noKeyNameConfig = scenarioConfig\<lparr>Key := \<lparr>Name = [], Version = -1\<rparr>\<rparr>"

definition authSecret :: "string \<Rightarrow> int \<Rightarrow> vault_Secret" where
  "authSecret t d =
     \<lparr>Secret_Data = Map.empty, Secret_Auth = Some \<lparr>ClientToken = t, LeaseDuration = d\<rparr>\<rparr>"

definition dataSecret :: "(string \<rightharpoonup> any) \<Rightarrow> vault_Secret" where
  "dataSecret m = \<lparr>Secret_Data = m, Secret_Auth = None\<rparr>"

definition scenarioService :: vaultService where
  "scenarioService =
     \<lparr>config = scenarioConfig,
      client = \<lparr>address = ''https://kms.example'', token = ''t0'', namespace = []\<rparr>,
      leaseDuration = 3600\<rparr>"

text \<open>
  A world in which every remote write gets the same answer and every renewer delivers
  the same events.
\<close>

definition scriptedWorld :: "reply \<Rightarrow> event list \<Rightarrow> world" where
  "scriptedWorld r evs =
     \<lparr>configureTLS = (\<lambda>caPath. None),
      newClient = (\<lambda>a. Inr \<lparr>address = a, token = [], namespace = []\<rparr>),
      service = (\<lambda>tr c path payload. r),
      renewer = (\<lambda>tr s. evs),
      trace = []\<rparr>"


text \<open>
  Three answers of the transit engine: a data key whose plaintext \<open>AQID\<close> decodes to
  the three bytes 1, 2, 3; no answer at all (the call fails); a response without a
  plaintext field.
\<close>

definition dataKeyWorld :: world where
  "dataKeyWorld =
     scriptedWorld
       (Some (dataSecret [''ciphertext'' \<mapsto> JString ''vault:v1:c2VhbGVk'',
                          ''plaintext'' \<mapsto> JString ''AQID'']), None) []"

definition unreachableWorld :: world where
  "unreachableWorld = scriptedWorld (None, Some (ServiceError ''connection refused'')) []"

definition noPlaintextWorld :: world where
  "noPlaintextWorld =
     scriptedWorld (Some (dataSecret [''ciphertext'' \<mapsto> JString ''vault:v1:c2VhbGVk'']), None) []"

subsection \<open>Observing the background job\<close>

text \<open>The world a job has reached, and the remote write that \<open>login\<close> makes.\<close>

fun worldOf :: "job \<Rightarrow> world" where
  "worldOf (Running v secret w) = w"
| "worldOf (Waiting v secret w) = w"
| "worldOf (Crashed w) = w"

definition loginRequest :: "vaultService \<Rightarrow> action" where
  "loginRequest v =
     Write (client v) ''auth/approle/login''
       [''role_id'' \<mapsto> JString (ID (AppRole (Auth (config v)))),
        ''secret_id'' \<mapsto> JString (Secret (AppRole (Auth (config v))))]"


section \<open>Configuration validator\<close>

lemma of_char_plus32_inj:
  assumes "(of_char c :: nat) \<le> 90"
  shows "char_of ((of_char c :: nat) + 32) = d \<longleftrightarrow> (of_char d :: nat) = of_char c + 32"
proof -
  have "(of_char (char_of ((of_char c :: nat) + 32)) :: nat) = (of_char c + 32) mod 256"
    by (simp add: of_char_of)
  also have "\<dots> = of_char c + 32" using assms by simp
  finally have a: "(of_char (char_of ((of_char c :: nat) + 32)) :: nat) = of_char c + 32" .
  show ?thesis
  proof
    assume "char_of ((of_char c :: nat) + 32) = d"
    with a show "(of_char d :: nat) = of_char c + 32" by simp
  next
    assume "(of_char d :: nat) = of_char c + 32"
    then have "char_of ((of_char c :: nat) + 32) = char_of (of_char d :: nat)" by simp
    then show "char_of ((of_char c :: nat) + 32) = d" by simp
  qed
qed

lemma toLowerByte_sameLetter:
  assumes "\<not> isUpper d"
  shows "toLowerByte c = d \<longleftrightarrow> sameLetter c d"
proof (cases "isUpper c")
  case True
  then have "c \<noteq> d" using assms by auto
  have "toLowerByte c = d \<longleftrightarrow> (of_char d :: nat) = of_char c + 32"
    using True by (simp add: toLowerByte_def isUpper_def of_char_plus32_inj)
  moreover have "sameLetter c d \<longleftrightarrow> (of_char d :: nat) = of_char c + 32"
    using True assms \<open>c \<noteq> d\<close> by (auto simp add: sameLetter_def)
  ultimately show ?thesis by simp
next
  case False
  with assms show ?thesis
    by (auto simp add: toLowerByte_def sameLetter_def isUpper_def)
qed

text \<open>
  Comparing the lowered string with a string that has no upper-case letter is equality
  up to case.
\<close>

lemma ToLower_equalUpToCase:
  "\<forall>d \<in> set t. \<not> isUpper d \<Longrightarrow> ToLower s = t \<longleftrightarrow> equalUpToCase s t"
proof (induction s arbitrary: t)
  case Nil
  show ?case by (auto simp add: ToLower_def equalUpToCase_def)
next
  case (Cons c s)
  show ?case
  proof (cases t)
    case Nil
    then show ?thesis by (simp add: ToLower_def equalUpToCase_def)
  next
    case (Cons d t')
    with Cons.prems have d: "\<not> isUpper d" and t': "\<forall>d \<in> set t'. \<not> isUpper d" by auto
    from Cons.IH [OF t'] toLowerByte_sameLetter [OF d] Cons show ?thesis
      by (simp add: ToLower_def equalUpToCase_def)
  qed
qed

lemma approle_lower: "\<forall>d \<in> set ''approle''. \<not> isUpper d"
  by (simp add: isUpper_def)

lemma Verify_firstViolated:
  assumes "\<not> IsEmpty v"
  shows "Verify v = map_option (\<lambda>r. complaint r v) (firstViolated v)"
  using assms ToLower_equalUpToCase [OF approle_lower, of "Type (Auth v)"]
  by (simp add: Verify_def firstViolated_def documentedOrder_def)

lemma complaint_inj: "complaint r v = complaint r' v \<Longrightarrow> r = r'"
  by (cases r; cases r'; simp)

text \<open>
  C2. For a configuration that is not the empty one, \<open>Verify\<close> returns the complaint of
  the first rule, in the documented order (endpoint set, auth type equal to
  \<open>approle\<close> up to case, AppRole ID set, AppRole secret set, key name set, key version
  not negative), that the configuration does not obey, and no error when it obeys all
  six. The complaints of different rules differ, so the error tells which rule it was.
\<close>

theorem Verify_reports_first_violated_rule:
  assumes "\<not> IsEmpty v"
  shows "Verify v = map_option (\<lambda>r. complaint r v) (firstViolated v)
    \<and> (Verify v = None \<longleftrightarrow> (\<forall>r \<in> set documentedOrder. obeys r v))
    \<and> (\<forall>r r'. complaint r v = complaint r' v \<longrightarrow> r = r')"
proof -
  have first: "Verify v = map_option (\<lambda>r. complaint r v) (firstViolated v)"
    by (rule Verify_firstViolated [OF assms])
  have "Verify v = None \<longleftrightarrow> firstViolated v = None"
    by (simp add: first)
  also have "\<dots> \<longleftrightarrow> (\<forall>r \<in> set documentedOrder. obeys r v)"
    by (auto simp add: firstViolated_def find_None_iff)
  finally have none: "Verify v = None \<longleftrightarrow> (\<forall>r \<in> set documentedOrder. obeys r v)" .
  from first none complaint_inj show ?thesis by blast
qed

theorem Verify_reports_first_violated_rule_witness:
  "\<not> IsEmpty noKeyNameConfig
   \<and> firstViolated noKeyNameConfig = Some KeyNameSet
   \<and> Verify noKeyNameConfig = Some (errorString ''crypto: missing hashicorp vault key name'')
   \<and> \<not> IsEmpty scenarioConfig
   \<and> Verify scenarioConfig = None"
proof -
  have ne: "\<not> IsEmpty noKeyNameConfig"
    by (simp add: IsEmpty_def noKeyNameConfig_def scenarioConfig_def emptyVaultConfig_def)
  have fv: "firstViolated noKeyNameConfig = Some KeyNameSet"
    by (simp add: firstViolated_def documentedOrder_def noKeyNameConfig_def scenarioConfig_def
        equalUpToCase_def sameLetter_def)
  have ne': "\<not> IsEmpty scenarioConfig"
    by (simp add: IsEmpty_def scenarioConfig_def emptyVaultConfig_def)
  have fv': "firstViolated scenarioConfig = None"
    by (simp add: firstViolated_def documentedOrder_def scenarioConfig_def
        equalUpToCase_def sameLetter_def)
  from Verify_reports_first_violated_rule [OF ne] Verify_reports_first_violated_rule [OF ne']
    ne ne' fv fv'
  show ?thesis by simp
qed

text \<open>
  C3. \<open>Verify\<close> returns no error for a configuration equal to the all-zero value.
\<close>

theorem Verify_accepts_empty_config:
  assumes "IsEmpty v"
  shows "Verify v = None"
  using assms by (simp add: Verify_def)

theorem Verify_accepts_empty_config_witness:
  "IsEmpty emptyVaultConfig \<and> Verify emptyVaultConfig = None"
proof -
  have e: "IsEmpty emptyVaultConfig" by (simp add: IsEmpty_def)
  from Verify_accepts_empty_config [OF e] e show ?thesis by simp
qed

text \<open>
  C9. \<open>NewVault\<close> returns an error, and no client, for the all-zero configuration,
  without touching the outside world, although \<open>Verify\<close> accepts that configuration.
\<close>

theorem NewVault_rejects_empty_config:
  assumes "IsEmpty cfg"
  shows "NewVault cfg w =
           (Returns (Inl (errorString
              ''crypto: the hashicorp vault configuration must not be empty'')), w)
    \<and> Verify cfg = None"
  using assms by (simp add: NewVault_def Verify_def)

theorem NewVault_rejects_empty_config_witness:
  "IsEmpty emptyVaultConfig
   \<and> fst (NewVault emptyVaultConfig (scriptedWorld (None, None) [])) =
       Returns (Inl (errorString
         ''crypto: the hashicorp vault configuration must not be empty''))
   \<and> trace (snd (NewVault emptyVaultConfig (scriptedWorld (None, None) []))) = []
   \<and> Verify emptyVaultConfig = None"
proof -
  have e: "IsEmpty emptyVaultConfig" by (simp add: IsEmpty_def)
  from NewVault_rejects_empty_config [OF e, of "scriptedWorld (None, None) []"] e
  show ?thesis by (simp add: scriptedWorld_def)
qed


section \<open>Credential manager\<close>

subsection \<open>The renewal wait and one round of the background job\<close>

lemma renewWait_skip: "renewWait (replicate k (Done None) @ evs) = renewWait evs"
  by (induction k) simp_all

lemma renewWait_all_done_nil: "renewWait (replicate k (Done None)) = Blocks"
  using renewWait_skip [of k "[]"] by simp

lemma renewWait_success:
  "renewWait evs = Returns (Some s, e) \<Longrightarrow> e = None \<and> Renew (Some s) \<in> set evs \<and> Secret_Auth s \<noteq> None"
  by (induction evs rule: renewWait.induct) (auto split: option.splits)

lemma renewWait_failure:
  "renewWait evs = Returns (None, e) \<Longrightarrow> e \<noteq> None"
  by (induction evs rule: renewWait.induct) (auto split: option.splits)

lemma renewWait_not_Panics: "renewWait evs \<noteq> Panics"
  by (induction evs rule: renewWait.induct) (auto split: option.splits)

lemma renewSecret_Some:
  "renewSecret v (Some s) w =
     (case renewWait (renewer w (trace w @ [StartRenewer s]) s) of
        Returns r \<Rightarrow> (Returns r, w\<lparr>trace := trace w @ [StartRenewer s, StopRenewer]\<rparr>)
      | Blocks \<Rightarrow> (Blocks, w\<lparr>trace := trace w @ [StartRenewer s]\<rparr>)
      | Panics \<Rightarrow> (Panics, w\<lparr>trace := trace w @ [StartRenewer s]\<rparr>))"
  by (simp add: renewSecret_def NewRenewer_def Let_def split: outcome.splits)

lemma login_eq:
  "login v w =
     (case service w (trace w) (client v) ''auth/approle/login''
             [''role_id'' \<mapsto> JString (ID (AppRole (Auth (config v)))),
              ''secret_id'' \<mapsto> JString (Secret (AppRole (Auth (config v))))] of
        (s, Some err) \<Rightarrow> (None, Some err)
      | (None, None) \<Rightarrow> (None, Some ErrKMSAuthLogin)
      | (Some secret, None) \<Rightarrow>
          (case Secret_Auth secret of
             None \<Rightarrow> (None, Some ErrKMSAuthLogin)
           | Some a \<Rightarrow> (Some secret, None)),
      w\<lparr>trace := trace w @ [loginRequest v]\<rparr>)"
  by (simp add: login_def Logical_Write_def loginRequest_def Let_def split: option.splits prod.splits)

lemma login_error:
  assumes "snd (service w (trace w) (client v) ''auth/approle/login''
             [''role_id'' \<mapsto> JString (ID (AppRole (Auth (config v)))),
              ''secret_id'' \<mapsto> JString (Secret (AppRole (Auth (config v))))]) = Some err"
  shows "fst (login v w) = (None, Some err)"
  using assms by (auto simp add: login_eq split: prod.splits option.splits)

lemma login_world: "snd (login v w) = w\<lparr>trace := trace w @ [loginRequest v]\<rparr>"
  by (simp add: login_eq)

lemma login_no_error:
  "login v w = ((r, None), w1) \<Longrightarrow> \<exists>s a. r = Some s \<and> Secret_Auth s = Some a"
  by (auto simp add: login_eq split: option.splits prod.splits)

lemma useSecret_Some:
  "Secret_Auth s = Some a \<Longrightarrow>
   useSecret v (Some s) =
     Some (v\<lparr>client := SetToken (client v) (ClientToken a), leaseDuration := LeaseDuration a\<rparr>, s)"
  by (simp add: useSecret_def)


text \<open>\<open>1 * time.Minute\<close>, a \<open>time.Duration\<close>, in nanoseconds.\<close>

lemma Minute_ns: "1 * Minute = 60000000000"
  by (simp add: Minute_def)

lemma background_blocked:
  assumes "fst (renewSecret v (Some secret) w) = Blocks"
  shows "background (Suc n) v secret w =
           Waiting v secret (w\<lparr>trace := trace w @ [StartRenewer secret]\<rparr>)"
  using assms by (simp add: renewSecret_Some split: outcome.splits)

lemma background_renewed:
  assumes "fst (renewSecret v (Some secret) w) = Returns (Some s, e)"
  shows "\<exists>a. Secret_Auth s = Some a \<and> e = None \<and>
           background (Suc n) v secret w =
             background n
               (v\<lparr>client := SetToken (client v) (ClientToken a), leaseDuration := LeaseDuration a\<rparr>)
               s (w\<lparr>trace := trace w @ [StartRenewer secret, StopRenewer]\<rparr>)"
proof -
  from assms have r: "renewWait (renewer w (trace w @ [StartRenewer secret]) secret) = Returns (Some s, e)"
    by (simp add: renewSecret_Some split: outcome.splits)
  from renewWait_success [OF r] obtain a where a: "Secret_Auth s = Some a" and e: "e = None"
    by auto
  show ?thesis using r a e by (simp add: renewSecret_Some useSecret_Some)
qed

lemma background_login_failed:
  assumes "fst (renewSecret v (Some secret) w) = Returns (r, Some e)"
    and "fst (login v (w\<lparr>trace := trace w @ [StartRenewer secret, StopRenewer]\<rparr>)) = (r', Some e')"
  shows "background (Suc n) v secret w =
           background n v secret
             (w\<lparr>trace := trace w @ [StartRenewer secret, StopRenewer, loginRequest v, Sleep 60000000000]\<rparr>)"
proof -
  let ?w1 = "w\<lparr>trace := trace w @ [StartRenewer secret, StopRenewer]\<rparr>"
  from assms(1) have r: "renewSecret v (Some secret) w = (Returns (r, Some e), ?w1)"
    by (simp add: renewSecret_Some split: outcome.splits)
  have l: "login v ?w1 = ((r', Some e'), ?w1\<lparr>trace := trace ?w1 @ [loginRequest v]\<rparr>)"
    using assms(2) login_world [of v ?w1] by (simp add: prod_eq_iff)
  show ?thesis
    by (simp add: r l time_Sleep_def Minute_def)
qed

lemma background_logged_in:
  assumes "fst (renewSecret v (Some secret) w) = Returns (r, Some e)"
    and "fst (login v (w\<lparr>trace := trace w @ [StartRenewer secret, StopRenewer]\<rparr>)) = (r', None)"
  shows "\<exists>s a. r' = Some s \<and> Secret_Auth s = Some a \<and>
           background (Suc n) v secret w =
             background n
               (v\<lparr>client := SetToken (client v) (ClientToken a), leaseDuration := LeaseDuration a\<rparr>)
               s (w\<lparr>trace := trace w @ [StartRenewer secret, StopRenewer, loginRequest v]\<rparr>)"
proof -
  let ?w1 = "w\<lparr>trace := trace w @ [StartRenewer secret, StopRenewer]\<rparr>"
  from assms(1) have r: "renewSecret v (Some secret) w = (Returns (r, Some e), ?w1)"
    by (simp add: renewSecret_Some split: outcome.splits)
  have l: "login v ?w1 = ((r', None), ?w1\<lparr>trace := trace ?w1 @ [loginRequest v]\<rparr>)"
    using assms(2) login_world [of v ?w1] by (simp add: prod_eq_iff)
  from login_no_error [OF l] obtain s a where s: "r' = Some s" and a: "Secret_Auth s = Some a"
    by auto
  show ?thesis using s a by (simp add: r l useSecret_Some)
qed

lemma renewSecret_outcomes:
  "fst (renewSecret v (Some secret) w) = Blocks
   \<or> (\<exists>s. fst (renewSecret v (Some secret) w) = Returns (Some s, None))
   \<or> (\<exists>e. fst (renewSecret v (Some secret) w) = Returns (None, Some e))"
proof (cases "renewWait (renewer w (trace w @ [StartRenewer secret]) secret)")
  case (Returns r)
  obtain x e where r: "r = (x, e)" by (cases r)
  show ?thesis
  proof (cases x)
    case None
    with Returns r renewWait_failure [of _ e] show ?thesis
      by (auto simp add: renewSecret_Some)
  next
    case (Some s)
    with Returns r renewWait_success [of _ s e] show ?thesis
      by (auto simp add: renewSecret_Some)
  qed
next
  case Blocks
  then show ?thesis by (simp add: renewSecret_Some)
next
  case Panics
  then show ?thesis using renewWait_not_Panics by blast
qed

lemma login_outcomes:
  "(\<exists>e. fst (login v w) = (None, Some e)) \<or> (\<exists>s. fst (login v w) = (Some s, None))"
  by (auto simp add: login_eq split: option.splits prod.splits)


lemma background_iteration:
  "(fst (renewSecret v (Some secret) w) = Blocks \<and>
      background (Suc n) v secret w =
        Waiting v secret (w\<lparr>trace := trace w @ [StartRenewer secret]\<rparr>))
   \<or> (\<exists>s a. fst (renewSecret v (Some secret) w) = Returns (Some s, None) \<and>
         Secret_Auth s = Some a \<and>
         background (Suc n) v secret w =
           background n
             (v\<lparr>client := SetToken (client v) (ClientToken a), leaseDuration := LeaseDuration a\<rparr>)
             s (w\<lparr>trace := trace w @ [StartRenewer secret, StopRenewer]\<rparr>))
   \<or> (\<exists>e e'. fst (renewSecret v (Some secret) w) = Returns (None, Some e) \<and>
         fst (login v (w\<lparr>trace := trace w @ [StartRenewer secret, StopRenewer]\<rparr>))
           = (None, Some e') \<and>
         background (Suc n) v secret w =
           background n v secret
             (w\<lparr>trace := trace w @
                [StartRenewer secret, StopRenewer, loginRequest v, Sleep 60000000000]\<rparr>))
   \<or> (\<exists>e s a. fst (renewSecret v (Some secret) w) = Returns (None, Some e) \<and>
         fst (login v (w\<lparr>trace := trace w @ [StartRenewer secret, StopRenewer]\<rparr>))
           = (Some s, None) \<and>
         Secret_Auth s = Some a \<and>
         background (Suc n) v secret w =
           background n
             (v\<lparr>client := SetToken (client v) (ClientToken a), leaseDuration := LeaseDuration a\<rparr>)
             s (w\<lparr>trace := trace w @ [StartRenewer secret, StopRenewer, loginRequest v]\<rparr>))"
proof -
  let ?w1 = "w\<lparr>trace := trace w @ [StartRenewer secret, StopRenewer]\<rparr>"
  consider (blocked) "fst (renewSecret v (Some secret) w) = Blocks"
    | (renewed) s where "fst (renewSecret v (Some secret) w) = Returns (Some s, None)"
    | (failed) e where "fst (renewSecret v (Some secret) w) = Returns (None, Some e)"
    using renewSecret_outcomes [of v secret w] by blast
  then show ?thesis
  proof cases
    case blocked
    with background_blocked [OF blocked, of n] show ?thesis by simp
  next
    case renewed
    with background_renewed [OF renewed, of n] show ?thesis by blast
  next
    case failed
    consider (nologin) e' where "fst (login v ?w1) = (None, Some e')"
      | (login) s where "fst (login v ?w1) = (Some s, None)"
      using login_outcomes [of v ?w1] by blast
    then show ?thesis
    proof cases
      case nologin
      with failed background_login_failed [OF failed nologin, of n] show ?thesis by blast
    next
      case login
      from background_logged_in [OF failed login, of n] failed login show ?thesis by blast
    qed
  qed
qed

lemma background_never_crashes: "background n v secret w \<noteq> Crashed w'"
proof (induction n arbitrary: v secret w)
  case 0
  show ?case by simp
next
  case (Suc n)
  from background_iteration [of v secret w n] Suc.IH show ?case by auto
qed

lemma background_trace_grows:
  "\<exists>more. trace (worldOf (background n v secret w)) = trace w @ more"
proof (induction n arbitrary: v secret w)
  case 0
  show ?case by simp
next
  case (Suc n)
  from background_iteration [of v secret w n] show ?case
  proof (elim disjE exE conjE)
    assume "background (Suc n) v secret w =
              Waiting v secret (w\<lparr>trace := trace w @ [StartRenewer secret]\<rparr>)"
    then show ?thesis by simp
  next
    fix s a
    assume b: "background (Suc n) v secret w =
           background n
             (v\<lparr>client := SetToken (client v) (ClientToken a), leaseDuration := LeaseDuration a\<rparr>)
             s (w\<lparr>trace := trace w @ [StartRenewer secret, StopRenewer]\<rparr>)"
    from Suc.IH [of "v\<lparr>client := SetToken (client v) (ClientToken a), leaseDuration := LeaseDuration a\<rparr>"
        s "w\<lparr>trace := trace w @ [StartRenewer secret, StopRenewer]\<rparr>"] b
    show ?thesis by auto
  next
    assume b: "background (Suc n) v secret w =
           background n v secret
             (w\<lparr>trace := trace w @
                [StartRenewer secret, StopRenewer, loginRequest v, Sleep 60000000000]\<rparr>)"
    from Suc.IH [of v secret "w\<lparr>trace := trace w @
                [StartRenewer secret, StopRenewer, loginRequest v, Sleep 60000000000]\<rparr>"] b
    show ?thesis by auto
  next
    fix s a
    assume b: "background (Suc n) v secret w =
           background n
             (v\<lparr>client := SetToken (client v) (ClientToken a), leaseDuration := LeaseDuration a\<rparr>)
             s (w\<lparr>trace := trace w @ [StartRenewer secret, StopRenewer, loginRequest v]\<rparr>)"
    from Suc.IH [of "v\<lparr>client := SetToken (client v) (ClientToken a), leaseDuration := LeaseDuration a\<rparr>"
        s "w\<lparr>trace := trace w @ [StartRenewer secret, StopRenewer, loginRequest v]\<rparr>"] b
    show ?thesis by auto
  qed
qed

lemma background_falls_back_to_login:
  assumes "fst (renewSecret v (Some secret) w) = Returns (r, Some e)"
  shows "\<exists>more. trace (worldOf (background (Suc n) v secret w)) =
           trace w @ [StartRenewer secret, StopRenewer, loginRequest v] @ more"
proof -
  let ?w1 = "w\<lparr>trace := trace w @ [StartRenewer secret, StopRenewer]\<rparr>"
  consider (nologin) e' where "fst (login v ?w1) = (None, Some e')"
    | (login) s where "fst (login v ?w1) = (Some s, None)"
    using login_outcomes [of v ?w1] by blast
  then show ?thesis
  proof cases
    case nologin
    from background_login_failed [OF assms nologin, of n]
      background_trace_grows [of n v secret "w\<lparr>trace := trace w @
                [StartRenewer secret, StopRenewer, loginRequest v, Sleep 60000000000]\<rparr>"]
    show ?thesis by auto
  next
    case login
    from background_logged_in [OF assms login, of n] show ?thesis
    proof (elim exE conjE)
      fix s' a
      assume b: "background (Suc n) v secret w =
             background n
               (v\<lparr>client := SetToken (client v) (ClientToken a), leaseDuration := LeaseDuration a\<rparr>)
               s' (w\<lparr>trace := trace w @ [StartRenewer secret, StopRenewer, loginRequest v]\<rparr>)"
      from background_trace_grows [of n "v\<lparr>client := SetToken (client v) (ClientToken a), leaseDuration := LeaseDuration a\<rparr>"
        s' "w\<lparr>trace := trace w @ [StartRenewer secret, StopRenewer, loginRequest v]\<rparr>"] b
      show ?thesis by auto
    qed
  qed
qed

lemma background_all_fail:
  assumes "\<forall>tr s. \<exists>r e. renewWait (renewer w tr s) = Returns (r, Some e)"
    and "\<forall>tr c path payload. snd (service w tr c path payload) \<noteq> None"
  shows "background n v secret w =
           Running v secret
             (w\<lparr>trace := trace w @ concat (replicate n
                [StartRenewer secret, StopRenewer, loginRequest v, Sleep 60000000000])\<rparr>)"
  using assms
proof (induction n arbitrary: w)
  case 0
  show ?case by simp
next
  case (Suc n)
  let ?w1 = "w\<lparr>trace := trace w @ [StartRenewer secret, StopRenewer]\<rparr>"
  let ?w2 = "w\<lparr>trace := trace w @
                [StartRenewer secret, StopRenewer, loginRequest v, Sleep 60000000000]\<rparr>"
  from Suc.prems(1) obtain r e where
    "renewWait (renewer w (trace w @ [StartRenewer secret]) secret) = Returns (r, Some e)"
    by blast
  then have rs: "fst (renewSecret v (Some secret) w) = Returns (r, Some e)"
    by (simp add: renewSecret_Some)
  from Suc.prems(2) obtain e' where
    "snd (service ?w1 (trace ?w1) (client v) ''auth/approle/login''
       [''role_id'' \<mapsto> JString (ID (AppRole (Auth (config v)))),
        ''secret_id'' \<mapsto> JString (Secret (AppRole (Auth (config v))))]) = Some e'"
    by fastforce
  then have lg: "fst (login v ?w1) = (None, Some e')"
    by (rule login_error)
  have step: "background (Suc n) v secret w = background n v secret ?w2"
    by (rule background_login_failed [OF rs lg])
  have "background n v secret ?w2 =
          Running v secret (?w2\<lparr>trace := trace ?w2 @ concat (replicate n
                [StartRenewer secret, StopRenewer, loginRequest v, Sleep 60000000000])\<rparr>)"
    using Suc.prems by (intro Suc.IH) simp_all
  with step show ?case by simp
qed

subsection \<open>Claims about renewal and the background job\<close>

text \<open>
  C1, as amended. When the renewer delivers a done event that carries an error, after
  any number of done events without one, \<open>renewSecret\<close> returns that error and the
  background job goes on to the login request. A done event without an error is not a
  success and is not a failure either: it is skipped and the wait goes on with the events
  that follow, so that \<open>renewSecret\<close> blocks, and the job with it, when only such events
  arrive. Success comes only from a renewal event.
\<close>

theorem renewSecret_done_event:
  "(renewer w (trace w @ [StartRenewer secret]) secret
        = replicate k (Done None) @ Done (Some e) # rest \<longrightarrow>
      renewSecret v (Some secret) w =
        (Returns (None, Some e), w\<lparr>trace := trace w @ [StartRenewer secret, StopRenewer]\<rparr>)
      \<and> (\<exists>more. trace (worldOf (background (Suc n) v secret w)) =
            trace w @ [StartRenewer secret, StopRenewer, loginRequest v] @ more))
   \<and> (renewer w (trace w @ [StartRenewer secret]) secret = Done None # evs \<longrightarrow>
      fst (renewSecret v (Some secret) w) = renewWait evs)
   \<and> (renewer w (trace w @ [StartRenewer secret]) secret = replicate k (Done None) \<longrightarrow>
      renewSecret v (Some secret) w =
        (Blocks, w\<lparr>trace := trace w @ [StartRenewer secret]\<rparr>)
      \<and> background (Suc n) v secret w =
          Waiting v secret (w\<lparr>trace := trace w @ [StartRenewer secret]\<rparr>))
   \<and> (fst (renewSecret v (Some secret) w) = Returns (Some s, None) \<longrightarrow>
      Renew (Some s) \<in> set (renewer w (trace w @ [StartRenewer secret]) secret))"
proof (intro conjI impI)
  assume ev: "renewer w (trace w @ [StartRenewer secret]) secret
        = replicate k (Done None) @ Done (Some e) # rest"
  then show r: "renewSecret v (Some secret) w =
        (Returns (None, Some e), w\<lparr>trace := trace w @ [StartRenewer secret, StopRenewer]\<rparr>)"
    by (simp add: renewSecret_Some renewWait_skip)
  then have "fst (renewSecret v (Some secret) w) = Returns (None, Some e)" by simp
  then show "\<exists>more. trace (worldOf (background (Suc n) v secret w)) =
            trace w @ [StartRenewer secret, StopRenewer, loginRequest v] @ more"
    by (rule background_falls_back_to_login)
next
  assume "renewer w (trace w @ [StartRenewer secret]) secret = Done None # evs"
  then show "fst (renewSecret v (Some secret) w) = renewWait evs"
    by (simp add: renewSecret_Some split: outcome.splits)
next
  assume ev: "renewer w (trace w @ [StartRenewer secret]) secret = replicate k (Done None)"
  then show r: "renewSecret v (Some secret) w =
        (Blocks, w\<lparr>trace := trace w @ [StartRenewer secret]\<rparr>)"
    by (simp add: renewSecret_Some renewWait_all_done_nil)
  then have "fst (renewSecret v (Some secret) w) = Blocks" by simp
  then show "background (Suc n) v secret w =
          Waiting v secret (w\<lparr>trace := trace w @ [StartRenewer secret]\<rparr>)"
    by (rule background_blocked)
next
  assume "fst (renewSecret v (Some secret) w) = Returns (Some s, None)"
  then have "renewWait (renewer w (trace w @ [StartRenewer secret]) secret) = Returns (Some s, None)"
    by (simp add: renewSecret_Some split: outcome.splits)
  from renewWait_success [OF this]
  show "Renew (Some s) \<in> set (renewer w (trace w @ [StartRenewer secret]) secret)" by simp
qed

text \<open>
  C1 as stated fails. With a renewer that delivers one done event without an error and
  nothing more, \<open>renewSecret\<close> does not return a failure but blocks, and the background
  job waits inside it without ever sending a login request. With a renewer that delivers
  a done event without an error and then a renewal, \<open>renewSecret\<close> returns the renewed
  secret: a success, not a failure.
\<close>

theorem renewSecret_done_without_error_is_no_failure:
  "fst (renewSecret scenarioService (Some (authSecret ''t0'' 3600))
         (scriptedWorld (None, Some (ServiceError ''down'')) [Done None])) = Blocks
   \<and> background 3 scenarioService (authSecret ''t0'' 3600)
         (scriptedWorld (None, Some (ServiceError ''down'')) [Done None])
       = Waiting scenarioService (authSecret ''t0'' 3600)
           ((scriptedWorld (None, Some (ServiceError ''down'')) [Done None])
              \<lparr>trace := [StartRenewer (authSecret ''t0'' 3600)]\<rparr>)
   \<and> fst (renewSecret scenarioService (Some (authSecret ''t0'' 3600))
         (scriptedWorld (None, Some (ServiceError ''down''))
            [Done None, Renew (Some (authSecret ''t1'' 7200))]))
       = Returns (Some (authSecret ''t1'' 7200), None)"
proof -
  let ?w = "scriptedWorld (None, Some (ServiceError ''down'')) [Done None]"
  have b: "fst (renewSecret scenarioService (Some (authSecret ''t0'' 3600)) ?w) = Blocks"
    by (simp add: renewSecret_Some scriptedWorld_def)
  have t: "trace ?w = []" by (simp add: scriptedWorld_def)
  have r: "fst (renewSecret scenarioService (Some (authSecret ''t0'' 3600))
         (scriptedWorld (None, Some (ServiceError ''down''))
            [Done None, Renew (Some (authSecret ''t1'' 7200))]))
       = Returns (Some (authSecret ''t1'' 7200), None)"
    by (simp add: renewSecret_Some scriptedWorld_def authSecret_def)
  from background_blocked [OF b, of 2] b t r show ?thesis
    by (simp add: numeral_3_eq_3)
qed

theorem renewSecret_done_event_witness:
  "renewSecret scenarioService (Some (authSecret ''t0'' 3600))
       (scriptedWorld (None, Some (ServiceError ''down''))
          [Done None, Done (Some (ServiceError ''lease expired''))])
     = (Returns (None, Some (ServiceError ''lease expired'')),
        (scriptedWorld (None, Some (ServiceError ''down''))
          [Done None, Done (Some (ServiceError ''lease expired''))])
          \<lparr>trace := [StartRenewer (authSecret ''t0'' 3600), StopRenewer]\<rparr>)
   \<and> (\<exists>more. trace (worldOf (background (Suc 1) scenarioService (authSecret ''t0'' 3600)
          (scriptedWorld (None, Some (ServiceError ''down''))
             [Done None, Done (Some (ServiceError ''lease expired''))])))
        = [StartRenewer (authSecret ''t0'' 3600), StopRenewer, loginRequest scenarioService]
          @ more)"
proof -
  let ?w = "scriptedWorld (None, Some (ServiceError ''down''))
          [Done None, Done (Some (ServiceError ''lease expired''))]"
  let ?s = "authSecret ''t0'' 3600"
  have ev: "renewer ?w (trace ?w @ [StartRenewer ?s]) ?s
      = replicate 1 (Done None) @ Done (Some (ServiceError ''lease expired'')) # []"
    by (simp add: scriptedWorld_def)
  have t: "trace ?w = []" by (simp add: scriptedWorld_def)
  from renewSecret_done_event [where w = ?w and secret = ?s and k = 1 and rest = "[]"
      and e = "ServiceError ''lease expired''" and v = scenarioService and n = 1] ev t
  show ?thesis by (simp del: background.simps)
qed

text \<open>
  C7. A renewal event without a secret, or with a secret that has no auth section, makes
  \<open>renewSecret\<close> return \<open>ErrKMSAuthLogin\<close>; the background job does not crash and its
  next remote call is the login request.
\<close>

theorem malformed_renewal_is_authentication_error:
  assumes "r = None \<or> (\<exists>s. r = Some s \<and> Secret_Auth s = None)"
    and "renewer w (trace w @ [StartRenewer secret]) secret
           = replicate k (Done None) @ Renew r # rest"
  shows "renewSecret v (Some secret) w =
           (Returns (None, Some ErrKMSAuthLogin),
            w\<lparr>trace := trace w @ [StartRenewer secret, StopRenewer]\<rparr>)
    \<and> (\<exists>more. trace (worldOf (background (Suc n) v secret w)) =
          trace w @ [StartRenewer secret, StopRenewer, loginRequest v] @ more)
    \<and> (\<forall>w'. background (Suc n) v secret w \<noteq> Crashed w')"
proof -
  from assms(1) have "renewWait (Renew r # rest) = Returns (None, Some ErrKMSAuthLogin)"
    by auto
  with assms(2) have r: "renewSecret v (Some secret) w =
           (Returns (None, Some ErrKMSAuthLogin),
            w\<lparr>trace := trace w @ [StartRenewer secret, StopRenewer]\<rparr>)"
    by (simp add: renewSecret_Some renewWait_skip)
  then have "fst (renewSecret v (Some secret) w) = Returns (None, Some ErrKMSAuthLogin)"
    by simp
  from background_falls_back_to_login [OF this, of n] r background_never_crashes
  show ?thesis by blast
qed

theorem malformed_renewal_is_authentication_error_witness:
  "renewSecret scenarioService (Some (authSecret ''t0'' 3600))
       (scriptedWorld (Some (authSecret ''t1'' 7200), None) [Renew (Some (dataSecret Map.empty))])
     = (Returns (None, Some ErrKMSAuthLogin),
        (scriptedWorld (Some (authSecret ''t1'' 7200), None) [Renew (Some (dataSecret Map.empty))])
          \<lparr>trace := [StartRenewer (authSecret ''t0'' 3600), StopRenewer]\<rparr>)
   \<and> (\<exists>more. trace (worldOf (background (Suc 0) scenarioService (authSecret ''t0'' 3600)
          (scriptedWorld (Some (authSecret ''t1'' 7200), None)
             [Renew (Some (dataSecret Map.empty))])))
        = [StartRenewer (authSecret ''t0'' 3600), StopRenewer, loginRequest scenarioService]
          @ more)"
proof -
  let ?w = "scriptedWorld (Some (authSecret ''t1'' 7200), None)
              [Renew (Some (dataSecret Map.empty))]"
  let ?s = "authSecret ''t0'' 3600"
  have m: "Some (dataSecret Map.empty) = None
      \<or> (\<exists>s. Some (dataSecret Map.empty) = Some s \<and> Secret_Auth s = None)"
    by (simp add: dataSecret_def)
  have ev: "renewer ?w (trace ?w @ [StartRenewer ?s]) ?s
      = replicate 0 (Done None) @ Renew (Some (dataSecret Map.empty)) # []"
    by (simp add: scriptedWorld_def)
  have t: "trace ?w = []" by (simp add: scriptedWorld_def)
  from malformed_renewal_is_authentication_error [OF m ev, of scenarioService 0] t
  show ?thesis by (simp del: background.simps)
qed

text \<open>
  C6. Every round of the background job, from any state, does one of four things: it
  blocks inside \<open>renewSecret\<close>; the renewal succeeded and the token and lease duration of
  the renewed secret are installed; the renewal and the login after it both failed, the
  service is left as it was and the job sleeps 60000000000 ns (\<open>1 * time.Minute\<close>)
  before the next round; or the renewal failed, the login succeeded and the token and
  lease duration of the new secret are installed. After any number of rounds the job is
  still running or waiting: it has no other outcome. When every renewal and every login
  fails, \<open>n\<close> rounds are \<open>n\<close> times renew, login, sleep one minute, with the service
  unchanged.
\<close>

theorem background_job_retries_forever:
  "((fst (renewSecret v (Some secret) w) = Blocks \<and>
      background (Suc n) v secret w =
        Waiting v secret (w\<lparr>trace := trace w @ [StartRenewer secret]\<rparr>))
   \<or> (\<exists>s a. fst (renewSecret v (Some secret) w) = Returns (Some s, None) \<and>
         Secret_Auth s = Some a \<and>
         background (Suc n) v secret w =
           background n
             (v\<lparr>client := SetToken (client v) (ClientToken a), leaseDuration := LeaseDuration a\<rparr>)
             s (w\<lparr>trace := trace w @ [StartRenewer secret, StopRenewer]\<rparr>))
   \<or> (\<exists>e e'. fst (renewSecret v (Some secret) w) = Returns (None, Some e) \<and>
         fst (login v (w\<lparr>trace := trace w @ [StartRenewer secret, StopRenewer]\<rparr>))
           = (None, Some e') \<and>
         background (Suc n) v secret w =
           background n v secret
             (w\<lparr>trace := trace w @
                [StartRenewer secret, StopRenewer, loginRequest v, Sleep 60000000000]\<rparr>))
   \<or> (\<exists>e s a. fst (renewSecret v (Some secret) w) = Returns (None, Some e) \<and>
         fst (login v (w\<lparr>trace := trace w @ [StartRenewer secret, StopRenewer]\<rparr>))
           = (Some s, None) \<and>
         Secret_Auth s = Some a \<and>
         background (Suc n) v secret w =
           background n
             (v\<lparr>client := SetToken (client v) (ClientToken a), leaseDuration := LeaseDuration a\<rparr>)
             s (w\<lparr>trace := trace w @ [StartRenewer secret, StopRenewer, loginRequest v]\<rparr>)))
   \<and> ((\<exists>v' secret' w'. background n v secret w = Running v' secret' w')
      \<or> (\<exists>v' secret' w'. background n v secret w = Waiting v' secret' w'))
   \<and> ((\<forall>tr s. \<exists>r e. renewWait (renewer w tr s) = Returns (r, Some e))
        \<and> (\<forall>tr c path payload. snd (service w tr c path payload) \<noteq> None) \<longrightarrow>
      background n v secret w =
        Running v secret
          (w\<lparr>trace := trace w @ concat (replicate n
             [StartRenewer secret, StopRenewer, loginRequest v, Sleep 60000000000])\<rparr>))"
proof (intro conjI impI)
  show "(fst (renewSecret v (Some secret) w) = Blocks \<and>
      background (Suc n) v secret w =
        Waiting v secret (w\<lparr>trace := trace w @ [StartRenewer secret]\<rparr>))
   \<or> (\<exists>s a. fst (renewSecret v (Some secret) w) = Returns (Some s, None) \<and>
         Secret_Auth s = Some a \<and>
         background (Suc n) v secret w =
           background n
             (v\<lparr>client := SetToken (client v) (ClientToken a), leaseDuration := LeaseDuration a\<rparr>)
             s (w\<lparr>trace := trace w @ [StartRenewer secret, StopRenewer]\<rparr>))
   \<or> (\<exists>e e'. fst (renewSecret v (Some secret) w) = Returns (None, Some e) \<and>
         fst (login v (w\<lparr>trace := trace w @ [StartRenewer secret, StopRenewer]\<rparr>))
           = (None, Some e') \<and>
         background (Suc n) v secret w =
           background n v secret
             (w\<lparr>trace := trace w @
                [StartRenewer secret, StopRenewer, loginRequest v, Sleep 60000000000]\<rparr>))
   \<or> (\<exists>e s a. fst (renewSecret v (Some secret) w) = Returns (None, Some e) \<and>
         fst (login v (w\<lparr>trace := trace w @ [StartRenewer secret, StopRenewer]\<rparr>))
           = (Some s, None) \<and>
         Secret_Auth s = Some a \<and>
         background (Suc n) v secret w =
           background n
             (v\<lparr>client := SetToken (client v) (ClientToken a), leaseDuration := LeaseDuration a\<rparr>)
             s (w\<lparr>trace := trace w @ [StartRenewer secret, StopRenewer, loginRequest v]\<rparr>))"
    by (rule background_iteration)
next
  show "(\<exists>v' secret' w'. background n v secret w = Running v' secret' w')
      \<or> (\<exists>v' secret' w'. background n v secret w = Waiting v' secret' w')"
    using background_never_crashes [of n v secret w]
    by (cases "background n v secret w") auto
next
  assume "(\<forall>tr s. \<exists>r e. renewWait (renewer w tr s) = Returns (r, Some e))
        \<and> (\<forall>tr c path payload. snd (service w tr c path payload) \<noteq> None)"
  then show "background n v secret w =
        Running v secret
          (w\<lparr>trace := trace w @ concat (replicate n
             [StartRenewer secret, StopRenewer, loginRequest v, Sleep 60000000000])\<rparr>)"
    using background_all_fail by blast
qed

theorem background_job_retries_forever_witness:
  "background 2 scenarioService (authSecret ''t0'' 3600)
     (scriptedWorld (None, Some (ServiceError ''down''))
        [Done (Some (ServiceError ''lease expired''))])
   = Running scenarioService (authSecret ''t0'' 3600)
       ((scriptedWorld (None, Some (ServiceError ''down''))
           [Done (Some (ServiceError ''lease expired''))])
        \<lparr>trace :=
           [StartRenewer (authSecret ''t0'' 3600), StopRenewer, loginRequest scenarioService,
            Sleep 60000000000,
            StartRenewer (authSecret ''t0'' 3600), StopRenewer, loginRequest scenarioService,
            Sleep 60000000000]\<rparr>)"
proof -
  let ?w = "scriptedWorld (None, Some (ServiceError ''down''))
        [Done (Some (ServiceError ''lease expired''))]"
  have r: "\<forall>tr s. \<exists>r e. renewWait (renewer ?w tr s) = Returns (r, Some e)"
    by (simp add: scriptedWorld_def)
  have l: "\<forall>tr c path payload. snd (service ?w tr c path payload) \<noteq> None"
    by (simp add: scriptedWorld_def)
  have t: "trace ?w = []" by (simp add: scriptedWorld_def)
  from background_job_retries_forever [where w = ?w and n = 2 and v = scenarioService
      and secret = "authSecret ''t0'' 3600"] r l t
  show ?thesis by (simp add: numeral_2_eq_2)
qed

section \<open>Key operations\<close>

lemma copy_zeroKey:
  "copy zeroKey plain = take 32 plain @ replicate (32 - length plain) (CHR 0x00)"
  by (simp add: copy_def zeroKey_def)

lemma copy_zeroKey_shape:
  "length (copy zeroKey plain) = 32
   \<and> take (length plain) (copy zeroKey plain) = take 32 plain
   \<and> drop (length plain) (copy zeroKey plain) = replicate (32 - length plain) (CHR 0x00)"
proof (cases "length plain \<le> 32")
  case True
  then show ?thesis by (simp add: copy_zeroKey)
next
  case False
  then show ?thesis by (simp add: copy_zeroKey)
qed

lemma GenerateKey_eq:
  "GenerateKey WriteTo v keyID ctx w =
     (case service w (trace w) (client v) (''/transit/datakey/plaintext/'' @ keyID)
             [''context'' \<mapsto> JString (EncodeToString (WriteTo ctx))] of
        (r, Some err) \<Rightarrow> Returns (zeroKey, [], Some err)
      | (None, None) \<Rightarrow> Panics
      | (Some s, None) \<Rightarrow>
          (case Secret_Data s ''ciphertext'' of
             Some (JString sealKey) \<Rightarrow>
               (case Secret_Data s ''plaintext'' of
                  Some (JString p) \<Rightarrow>
                    (case DecodeString p of
                       Inl err \<Rightarrow> Returns (zeroKey, [], Some err)
                     | Inr plainKey \<Rightarrow> Returns (copy zeroKey plainKey, sealKey, None))
                | _ \<Rightarrow> Panics)
           | _ \<Rightarrow> Panics),
      w\<lparr>trace := trace w @ [Write (client v) (''/transit/datakey/plaintext/'' @ keyID)
             [''context'' \<mapsto> JString (EncodeToString (WriteTo ctx))]]\<rparr>)"
  by (simp add: GenerateKey_def Logical_Write_def Let_def
      split: option.splits prod.splits any.splits sum.splits)

lemma UnsealKey_eq:
  "UnsealKey WriteTo v keyID sealedKey ctx w =
     (case service w (trace w) (client v) (''/transit/decrypt/'' @ keyID)
             [''ciphertext'' \<mapsto> JString sealedKey,
              ''context'' \<mapsto> JString (EncodeToString (WriteTo ctx))] of
        (r, Some err) \<Rightarrow> Returns (zeroKey, Some err)
      | (None, None) \<Rightarrow> Panics
      | (Some s, None) \<Rightarrow>
          (case Secret_Data s ''plaintext'' of
             Some (JString base64Key) \<Rightarrow>
               (case DecodeString base64Key of
                  Inl err \<Rightarrow> Returns (zeroKey, Some err)
                | Inr plainKey \<Rightarrow> Returns (copy zeroKey plainKey, None))
           | _ \<Rightarrow> Panics),
      w\<lparr>trace := trace w @ [Write (client v) (''/transit/decrypt/'' @ keyID)
             [''ciphertext'' \<mapsto> JString sealedKey,
              ''context'' \<mapsto> JString (EncodeToString (WriteTo ctx))]]\<rparr>)"
  by (simp add: UnsealKey_def Logical_Write_def Let_def
      split: option.splits prod.splits any.splits sum.splits)

text \<open>
  C4. When \<open>GenerateKey\<close> or \<open>UnsealKey\<close> returns without an error, the key has 32
  bytes and comes from the base64 decoding of the plaintext field of the response: its
  first bytes are the decoded bytes (the first 32 of them when there are more), and when
  there are \<open>n < 32\<close> decoded bytes the remaining \<open>32 - n\<close> bytes are zero.
\<close>

theorem plaintext_key_is_padded_copy:
  "(fst (GenerateKey WriteTo v keyID ctx w) = Returns (key, sealedKey, None) \<longrightarrow>
      (\<exists>s p plain.
         fst (service w (trace w) (client v) (''/transit/datakey/plaintext/'' @ keyID)
                [''context'' \<mapsto> JString (EncodeToString (WriteTo ctx))]) = Some s
         \<and> Secret_Data s ''plaintext'' = Some (JString p)
         \<and> DecodeString p = Inr plain
         \<and> length key = 32
         \<and> take (length plain) key = take 32 plain
         \<and> drop (length plain) key = replicate (32 - length plain) (CHR 0x00)))
   \<and> (fst (UnsealKey WriteTo v keyID sealed ctx w) = Returns (key, None) \<longrightarrow>
      (\<exists>s p plain.
         fst (service w (trace w) (client v) (''/transit/decrypt/'' @ keyID)
                [''ciphertext'' \<mapsto> JString sealed,
                 ''context'' \<mapsto> JString (EncodeToString (WriteTo ctx))]) = Some s
         \<and> Secret_Data s ''plaintext'' = Some (JString p)
         \<and> DecodeString p = Inr plain
         \<and> length key = 32
         \<and> take (length plain) key = take 32 plain
         \<and> drop (length plain) key = replicate (32 - length plain) (CHR 0x00)))"
proof (intro conjI impI)
  assume "fst (GenerateKey WriteTo v keyID ctx w) = Returns (key, sealedKey, None)"
  then obtain s c p plain where
    "fst (service w (trace w) (client v) (''/transit/datakey/plaintext/'' @ keyID)
                [''context'' \<mapsto> JString (EncodeToString (WriteTo ctx))]) = Some s"
    "Secret_Data s ''plaintext'' = Some (JString p)"
    "DecodeString p = Inr plain" "key = copy zeroKey plain"
    by (auto simp add: GenerateKey_eq split: option.splits prod.splits any.splits sum.splits)
  with copy_zeroKey_shape [of plain]
  show "\<exists>s p plain.
         fst (service w (trace w) (client v) (''/transit/datakey/plaintext/'' @ keyID)
                [''context'' \<mapsto> JString (EncodeToString (WriteTo ctx))]) = Some s
         \<and> Secret_Data s ''plaintext'' = Some (JString p)
         \<and> DecodeString p = Inr plain
         \<and> length key = 32
         \<and> take (length plain) key = take 32 plain
         \<and> drop (length plain) key = replicate (32 - length plain) (CHR 0x00)"
    by blast
next
  assume "fst (UnsealKey WriteTo v keyID sealed ctx w) = Returns (key, None)"
  then obtain s p plain where
    "fst (service w (trace w) (client v) (''/transit/decrypt/'' @ keyID)
                [''ciphertext'' \<mapsto> JString sealed,
                 ''context'' \<mapsto> JString (EncodeToString (WriteTo ctx))]) = Some s"
    "Secret_Data s ''plaintext'' = Some (JString p)"
    "DecodeString p = Inr plain" "key = copy zeroKey plain"
    by (auto simp add: UnsealKey_eq split: option.splits prod.splits any.splits sum.splits)
  with copy_zeroKey_shape [of plain]
  show "\<exists>s p plain.
         fst (service w (trace w) (client v) (''/transit/decrypt/'' @ keyID)
                [''ciphertext'' \<mapsto> JString sealed,
                 ''context'' \<mapsto> JString (EncodeToString (WriteTo ctx))]) = Some s
         \<and> Secret_Data s ''plaintext'' = Some (JString p)
         \<and> DecodeString p = Inr plain
         \<and> length key = 32
         \<and> take (length plain) key = take 32 plain
         \<and> drop (length plain) key = replicate (32 - length plain) (CHR 0x00)"
    by blast
qed

text \<open>
  C5. When the remote write of \<open>GenerateKey\<close> or \<open>UnsealKey\<close> fails, the operation
  returns that error with the key all zero (and, for \<open>GenerateKey\<close>, the sealed key
  empty), and it has made exactly one remote write.
\<close>

theorem key_operations_surface_remote_error:
  "(snd (service w (trace w) (client v) (''/transit/datakey/plaintext/'' @ keyID)
           [''context'' \<mapsto> JString (EncodeToString (WriteTo ctx))]) = Some e \<longrightarrow>
      GenerateKey WriteTo v keyID ctx w =
        (Returns (replicate 32 (CHR 0x00), [], Some e),
         w\<lparr>trace := trace w @ [Write (client v) (''/transit/datakey/plaintext/'' @ keyID)
             [''context'' \<mapsto> JString (EncodeToString (WriteTo ctx))]]\<rparr>))
   \<and> (snd (service w (trace w) (client v) (''/transit/decrypt/'' @ keyID)
           [''ciphertext'' \<mapsto> JString sealedKey,
            ''context'' \<mapsto> JString (EncodeToString (WriteTo ctx))]) = Some e \<longrightarrow>
      UnsealKey WriteTo v keyID sealedKey ctx w =
        (Returns (replicate 32 (CHR 0x00), Some e),
         w\<lparr>trace := trace w @ [Write (client v) (''/transit/decrypt/'' @ keyID)
             [''ciphertext'' \<mapsto> JString sealedKey,
              ''context'' \<mapsto> JString (EncodeToString (WriteTo ctx))]]\<rparr>))"
  by (auto simp add: GenerateKey_eq UnsealKey_eq zeroKey_def split: prod.splits option.splits)

text \<open>
  C10. When the remote write succeeds with a response whose data has no string under
  \<open>ciphertext\<close> or under \<open>plaintext\<close> (\<open>GenerateKey\<close>), or no string under
  \<open>plaintext\<close> (\<open>UnsealKey\<close>), the operation panics: it does not return.
\<close>

theorem key_operations_panic_on_missing_field:
  "(service w (trace w) (client v) (''/transit/datakey/plaintext/'' @ keyID)
        [''context'' \<mapsto> JString (EncodeToString (WriteTo ctx))] = (Some s, None)
      \<and> ((\<forall>c. Secret_Data s ''ciphertext'' \<noteq> Some (JString c))
         \<or> (\<forall>p. Secret_Data s ''plaintext'' \<noteq> Some (JString p))) \<longrightarrow>
      fst (GenerateKey WriteTo v keyID ctx w) = Panics)
   \<and> (service w (trace w) (client v) (''/transit/decrypt/'' @ keyID)
        [''ciphertext'' \<mapsto> JString sealedKey,
         ''context'' \<mapsto> JString (EncodeToString (WriteTo ctx))] = (Some s, None)
      \<and> (\<forall>p. Secret_Data s ''plaintext'' \<noteq> Some (JString p)) \<longrightarrow>
      fst (UnsealKey WriteTo v keyID sealedKey ctx w) = Panics)"
  by (auto simp add: GenerateKey_eq UnsealKey_eq split: option.splits any.splits)


theorem plaintext_key_is_padded_copy_witness:
  "fst (GenerateKey id scenarioService ''my-minio-key'' ''{}'' dataKeyWorld) =
     Returns ([CHR 0x01, CHR 0x02, CHR 0x03] @ replicate 29 (CHR 0x00), ''vault:v1:c2VhbGVk'', None)
   \<and> (\<exists>s p plain.
         fst (service dataKeyWorld (trace dataKeyWorld) (client scenarioService)
                (''/transit/datakey/plaintext/'' @ ''my-minio-key'')
                [''context'' \<mapsto> JString (EncodeToString (id ''{}''))]) = Some s
         \<and> Secret_Data s ''plaintext'' = Some (JString p)
         \<and> DecodeString p = Inr plain
         \<and> length ([CHR 0x01, CHR 0x02, CHR 0x03] @ replicate 29 (CHR 0x00)) = 32
         \<and> take (length plain) ([CHR 0x01, CHR 0x02, CHR 0x03] @ replicate 29 (CHR 0x00))
             = take 32 plain
         \<and> drop (length plain) ([CHR 0x01, CHR 0x02, CHR 0x03] @ replicate 29 (CHR 0x00))
             = replicate (32 - length plain) (CHR 0x00))
   \<and> fst (UnsealKey id scenarioService ''my-minio-key'' ''vault:v1:c2VhbGVk'' ''{}'' dataKeyWorld) =
     Returns ([CHR 0x01, CHR 0x02, CHR 0x03] @ replicate 29 (CHR 0x00), None)"
proof -
  have d: "DecodeString ''AQID'' = Inr [CHR 0x01, CHR 0x02, CHR 0x03]"
    by (simp add: DecodeString_def dec6_def encodeStd_def char_of_def bit_Suc_0_iff)
  have g: "fst (GenerateKey id scenarioService ''my-minio-key'' ''{}'' dataKeyWorld) =
     Returns ([CHR 0x01, CHR 0x02, CHR 0x03] @ replicate 29 (CHR 0x00), ''vault:v1:c2VhbGVk'', None)"
    by (simp add: GenerateKey_eq dataKeyWorld_def scriptedWorld_def dataSecret_def d copy_zeroKey)
  have u: "fst (UnsealKey id scenarioService ''my-minio-key'' ''vault:v1:c2VhbGVk'' ''{}'' dataKeyWorld) =
     Returns ([CHR 0x01, CHR 0x02, CHR 0x03] @ replicate 29 (CHR 0x00), None)"
    by (simp add: UnsealKey_eq dataKeyWorld_def scriptedWorld_def dataSecret_def d copy_zeroKey)
  note t = plaintext_key_is_padded_copy [where WriteTo = id and v = scenarioService
      and keyID = "''my-minio-key''" and ctx = "''{}''" and w = dataKeyWorld
      and key = "[CHR 0x01, CHR 0x02, CHR 0x03] @ replicate 29 (CHR 0x00)"
      and sealedKey = "''vault:v1:c2VhbGVk''", THEN conjunct1, THEN mp, OF g]
  from g t u show ?thesis by (intro conjI)
qed

theorem key_operations_surface_remote_error_witness:
  "GenerateKey id scenarioService ''my-minio-key'' ''{}'' unreachableWorld =
     (Returns (replicate 32 (CHR 0x00), [], Some (ServiceError ''connection refused'')),
      unreachableWorld\<lparr>trace :=
        [Write (client scenarioService) ''/transit/datakey/plaintext/my-minio-key''
           [''context'' \<mapsto> JString ''e30='']]\<rparr>)
   \<and> UnsealKey id scenarioService ''my-minio-key'' ''vault:v1:c2VhbGVk'' ''{}'' unreachableWorld =
     (Returns (replicate 32 (CHR 0x00), Some (ServiceError ''connection refused'')),
      unreachableWorld\<lparr>trace :=
        [Write (client scenarioService) ''/transit/decrypt/my-minio-key''
           [''ciphertext'' \<mapsto> JString ''vault:v1:c2VhbGVk'',
            ''context'' \<mapsto> JString ''e30='']]\<rparr>)"
proof -
  have s: "service unreachableWorld = (\<lambda>tr c path payload. (None, Some (ServiceError ''connection refused'')))"
    by (simp add: unreachableWorld_def scriptedWorld_def)
  have t: "trace unreachableWorld = []"
    by (simp add: unreachableWorld_def scriptedWorld_def)
  have e: "EncodeToString ''{}'' = ''e30=''"
    by (simp add: enc6_def encodeStd_def)
  from key_operations_surface_remote_error [where WriteTo = id and v = scenarioService
      and keyID = "''my-minio-key''" and ctx = "''{}''" and w = unreachableWorld
      and e = "ServiceError ''connection refused''" and sealedKey = "''vault:v1:c2VhbGVk''"]
    s t e
  show ?thesis by simp
qed

theorem key_operations_panic_on_missing_field_witness:
  "fst (GenerateKey id scenarioService ''my-minio-key'' ''{}'' noPlaintextWorld) = Panics
   \<and> fst (UnsealKey id scenarioService ''my-minio-key'' ''vault:v1:c2VhbGVk'' ''{}''
           noPlaintextWorld) = Panics"
proof -
  have s: "service noPlaintextWorld =
      (\<lambda>tr c path payload.
         (Some (dataSecret [''ciphertext'' \<mapsto> JString ''vault:v1:c2VhbGVk'']), None))"
    by (simp add: noPlaintextWorld_def scriptedWorld_def)
  have p: "\<forall>p. Secret_Data (dataSecret [''ciphertext'' \<mapsto> JString ''vault:v1:c2VhbGVk''])
      ''plaintext'' \<noteq> Some (JString p)"
    by (simp add: dataSecret_def)
  from key_operations_panic_on_missing_field [where WriteTo = id and v = scenarioService
      and keyID = "''my-minio-key''" and ctx = "''{}''" and w = noPlaintextWorld
      and s = "dataSecret [''ciphertext'' \<mapsto> JString ''vault:v1:c2VhbGVk'']"
      and sealedKey = "''vault:v1:c2VhbGVk''"] s p
  show ?thesis by simp
qed

end
